theory Spec2Isabelle
  imports Complex_Main
begin

section \<open>Tensors and framework errors\<close>

text \<open>
  The program in \<^verbatim>\<open>processtransformer/models/transformer.py\<close> wires layers of the
  Keras API into two custom layers and three model builders. One example of a batch is
  modelled: a rank-1 tensor is a list of scalars, a rank-2 tensor (a sequence of feature
  vectors) is a list of rows. Scalars are real numbers: the rounding of the 32-bit
  floats of the framework is not part of the model.

  The framework reports a failure by raising. The two failures that the layers used
  here can raise are an index outside an embedding table and incompatible shapes;
  averaging over an empty axis, which the framework answers with a not-a-number, is
  reported as a third value since the reals have none.
\<close>

type_synonym vec = "real list"
type_synonym mat = "real list list"

datatype error = InvalidArgument | ShapeMismatch | NotANumber

definition is_vec :: "nat \<Rightarrow> vec \<Rightarrow> bool" where
  "is_vec n v = (length v = n)"

definition is_mat :: "nat \<Rightarrow> nat \<Rightarrow> mat \<Rightarrow> bool" where
  "is_mat r c m = (length m = r \<and> list_all (\<lambda>row. length row = c) m)"

text \<open>
  Modelled from the spec: the addition \<^verbatim>\<open>a + b\<close> of two tensors is the framework's.
  It is the elementwise sum; an axis of size one is broadcast, every other difference
  of sizes raises.
\<close>

definition add_vec :: "vec \<Rightarrow> vec \<Rightarrow> error + vec" where
  "add_vec u v =
     (if length u = length v then Inr (map2 (+) u v)
      else if length u = 1 then Inr (map (\<lambda>b. hd u + b) v)
      else if length v = 1 then Inr (map (\<lambda>a. a + hd v) u)
      else Inl ShapeMismatch)"

fun collect :: "(error + 'a) list \<Rightarrow> error + 'a list" where
  "collect [] = Inr []"
| "collect (Inl e # rs) = Inl e"
| "collect (Inr x # rs) = (case collect rs of Inl e \<Rightarrow> Inl e | Inr xs \<Rightarrow> Inr (x # xs))"

definition add_mat :: "mat \<Rightarrow> mat \<Rightarrow> error + mat" where
  "add_mat a b =
     (if length a = length b then collect (map2 add_vec a b)
      else if length a = 1 then collect (map (add_vec (hd a)) b)
      else if length b = 1 then collect (map (\<lambda>r. add_vec r (hd b)) a)
      else Inl ShapeMismatch)"

section \<open>Embedding tables\<close>

text \<open>
  Modelled from the spec: the framework layer \<^verbatim>\<open>layers.Embedding\<close> is not part of the
  repository. It is a learned mapping from a discrete identifier to a vector: a table
  of \<open>emb_input_dim\<close> rows of size \<open>emb_output_dim\<close>, read at each identifier. An identifier
  outside \<open>0..emb_input_dim-1\<close> has no row and the lookup raises.
\<close>

record Embedding =
  emb_input_dim :: nat
  emb_output_dim :: nat

definition Embedding_call :: "Embedding \<Rightarrow> mat \<Rightarrow> int list \<Rightarrow> error + mat" where
  "Embedding_call self table ids =
     (if \<not> is_mat (emb_input_dim self) (emb_output_dim self) table then Inl ShapeMismatch
      else if list_all (\<lambda>i. 0 \<le> i \<and> i < int (emb_input_dim self)) ids
      then Inr (map (\<lambda>i. table ! nat i) ids)
      else Inl InvalidArgument)"

text \<open>
  Modelled from the spec: \<^verbatim>\<open>tf.range(start, limit, delta)\<close> of the framework, for a
  positive step: the integers \<open>start, start + delta, ...\<close> below \<open>limit\<close>.
\<close>

definition tf_range :: "int \<Rightarrow> int \<Rightarrow> int \<Rightarrow> int list" where
  "tf_range start limit delta =
     map (\<lambda>k. start + int k * delta) [0..<nat ((limit - start + delta - 1) div delta)]"

section \<open>TokenAndPositionEmbedding\<close>

text \<open>
  The class keeps two embedding layers; \<open>maxlen\<close> is used for the size of the position
  table only and is not kept. The variables of the two layers are passed to \<open>call\<close>
  as a record of the two tables.
\<close>

record TokenAndPositionEmbedding =
  token_emb :: Embedding
  pos_emb :: Embedding

record TokenAndPositionEmbedding_vars =
  token_emb_table :: mat
  pos_emb_table :: mat

definition TokenAndPositionEmbedding_init :: "nat \<Rightarrow> nat \<Rightarrow> nat \<Rightarrow> TokenAndPositionEmbedding" where
  "TokenAndPositionEmbedding_init maxlen vocab_size embed_dim =
     \<lparr>token_emb = \<lparr>emb_input_dim = vocab_size, emb_output_dim = embed_dim\<rparr>,
      pos_emb = \<lparr>emb_input_dim = maxlen, emb_output_dim = embed_dim\<rparr>\<rparr>"

definition TokenAndPositionEmbedding_call ::
  "TokenAndPositionEmbedding \<Rightarrow> TokenAndPositionEmbedding_vars \<Rightarrow> int list \<Rightarrow> error + mat" where
  "TokenAndPositionEmbedding_call self vars x =
     (let maxlen = int (length x);
          positions = tf_range 0 maxlen 1
      in case Embedding_call (pos_emb self) (pos_emb_table vars) positions of
           Inl e \<Rightarrow> Inl e
         | Inr positions' \<Rightarrow>
             (case Embedding_call (token_emb self) (token_emb_table vars) x of
                Inl e \<Rightarrow> Inl e
              | Inr x' \<Rightarrow> add_mat x' positions'))"

section \<open>Framework layers used by the transformer block\<close>

subsection \<open>Dense\<close>

text \<open>
  Modelled from the spec: the framework layer \<^verbatim>\<open>layers.Dense\<close> is not part of the
  repository. A dense layer of \<open>units\<close> outputs multiplies the last axis by its kernel,
  adds its bias and applies its activation; without an activation, and with
  \<^verbatim>\<open>"linear"\<close>, the result is left as it is. The kernel has one row for each input
  feature; another size of the input raises.
\<close>

datatype activation = Relu | Linear

definition apply_activation :: "activation option \<Rightarrow> real \<Rightarrow> real" where
  "apply_activation a z = (case a of None \<Rightarrow> z | Some Relu \<Rightarrow> max 0 z | Some Linear \<Rightarrow> z)"

definition dot :: "vec \<Rightarrow> vec \<Rightarrow> real" where
  "dot u v = sum_list (map2 (*) u v)"

definition column :: "mat \<Rightarrow> nat \<Rightarrow> vec" where
  "column m j = map (\<lambda>row. row ! j) m"

definition vec_mat :: "vec \<Rightarrow> mat \<Rightarrow> nat \<Rightarrow> vec" where
  "vec_mat x w n = map (\<lambda>j. dot x (column w j)) [0..<n]"

record Dense =
  units :: nat
  activation :: "activation option"

record Dense_vars =
  kernel :: mat
  bias :: vec

definition Dense_built :: "Dense \<Rightarrow> nat \<Rightarrow> Dense_vars \<Rightarrow> bool" where
  "Dense_built self n vars = (is_mat n (units self) (kernel vars) \<and> is_vec (units self) (bias vars))"

definition Dense_call :: "Dense \<Rightarrow> Dense_vars \<Rightarrow> vec \<Rightarrow> error + vec" where
  "Dense_call self vars x =
     (if Dense_built self (length x) vars
      then Inr (map (apply_activation (activation self))
                  (map2 (+) (vec_mat x (kernel vars) (units self)) (bias vars)))
      else Inl ShapeMismatch)"

definition Dense_call_seq :: "Dense \<Rightarrow> Dense_vars \<Rightarrow> mat \<Rightarrow> error + mat" where
  "Dense_call_seq self vars xs = collect (map (Dense_call self vars) xs)"

text \<open>\<^verbatim>\<open>tf.keras.Sequential\<close> of dense layers: each layer is fed the output of the one before.\<close>

fun Sequential_call :: "Dense list \<Rightarrow> Dense_vars list \<Rightarrow> mat \<Rightarrow> error + mat" where
  "Sequential_call [] [] x = Inr x"
| "Sequential_call (l # ls) (v # vs) x =
     (case Dense_call_seq l v x of Inl e \<Rightarrow> Inl e | Inr y \<Rightarrow> Sequential_call ls vs y)"
| "Sequential_call _ _ x = Inl ShapeMismatch"

subsection \<open>Dropout\<close>

text \<open>
  Modelled from the spec: the framework layer \<^verbatim>\<open>layers.Dropout\<close> is not part of the
  repository. Dropout is active only during training: there each entry is either kept,
  scaled by \<open>1 / (1 - dropout_rate)\<close>, or set to zero, by the next draw of the random
  generator; outside training the input is returned as it is and nothing is drawn.
  The generator is an explicit state: the unbounded sequence of its future draws.
\<close>

type_synonym rng = "nat \<Rightarrow> bool"

record Dropout =
  dropout_rate :: real

definition dropped_inputs :: "real \<Rightarrow> vec \<Rightarrow> rng \<Rightarrow> vec \<times> rng" where
  "dropped_inputs r x g =
     (map (\<lambda>(k, a). if g k then a / (1 - r) else 0) (zip [0..<length x] x),
      \<lambda>k. g (k + length x))"

fun dropped_rows :: "real \<Rightarrow> mat \<Rightarrow> rng \<Rightarrow> mat \<times> rng" where
  "dropped_rows r [] g = ([], g)"
| "dropped_rows r (x # xs) g =
     (case dropped_inputs r x g of (y, g') \<Rightarrow>
        (case dropped_rows r xs g' of (ys, g'') \<Rightarrow> (y # ys, g'')))"

definition Dropout_call :: "Dropout \<Rightarrow> vec \<Rightarrow> bool \<Rightarrow> rng \<Rightarrow> vec \<times> rng" where
  "Dropout_call self x training g = (if training then dropped_inputs (dropout_rate self) x g else (x, g))"

definition Dropout_call_seq :: "Dropout \<Rightarrow> mat \<Rightarrow> bool \<Rightarrow> rng \<Rightarrow> mat \<times> rng" where
  "Dropout_call_seq self x training g = (if training then dropped_rows (dropout_rate self) x g else (x, g))"

subsection \<open>Layer normalization\<close>

text \<open>
  Modelled from the spec: the framework layer \<^verbatim>\<open>layers.LayerNormalization\<close> is not
  part of the repository. Each position is rescaled to zero mean and unit variance
  (the variance is offset by \<open>epsilon\<close>), then scaled and shifted by the learned
  \<open>gamma\<close> and \<open>beta\<close>.
\<close>

record LayerNormalization =
  epsilon :: real

record LayerNormalization_vars =
  gamma :: vec
  beta :: vec

definition mean :: "vec \<Rightarrow> real" where
  "mean v = sum_list v / real (length v)"

definition normalize_row :: "real \<Rightarrow> vec \<Rightarrow> vec \<Rightarrow> vec \<Rightarrow> vec" where
  "normalize_row eps gam bet x =
     (let mu = mean x;
          var = mean (map (\<lambda>a. (a - mu)\<^sup>2) x)
      in map (\<lambda>(a, g, b). (a - mu) / sqrt (var + eps) * g + b) (zip x (zip gam bet)))"

definition LayerNormalization_built :: "nat \<Rightarrow> LayerNormalization_vars \<Rightarrow> bool" where
  "LayerNormalization_built n vars = (is_vec n (gamma vars) \<and> is_vec n (beta vars))"

definition LayerNormalization_call ::
  "LayerNormalization \<Rightarrow> LayerNormalization_vars \<Rightarrow> mat \<Rightarrow> error + mat" where
  "LayerNormalization_call self vars xs =
     (if list_all (\<lambda>x. LayerNormalization_built (length x) vars) xs
      then Inr (map (normalize_row (epsilon self) (gamma vars) (beta vars)) xs)
      else Inl ShapeMismatch)"

subsection \<open>Multi-head attention\<close>

text \<open>
  Modelled from the spec: the framework layer \<^verbatim>\<open>layers.MultiHeadAttention\<close> is not
  part of the repository. For each position of the query sequence it computes a
  weighted combination of the positions of the value sequence, the weights being the
  softmax of the pairwise similarities of the projected query and key. Each of the
  \<open>mha_num_heads\<close> heads projects query, key and value to \<open>mha_key_dim\<close> features (the query
  divided by the square root of \<open>mha_key_dim\<close>) and projects its combination back to the
  feature size of the query; the heads are summed and the output bias added. The key
  is the value, as the layer does when it is called with two arguments. The dropout
  of the attention weights has the framework's default rate of zero and is left out.
\<close>

record MultiHeadAttention =
  mha_num_heads :: nat
  mha_key_dim :: nat

record head_vars =
  query_kernel :: mat
  query_bias :: vec
  key_kernel :: mat
  key_bias :: vec
  value_kernel :: mat
  value_bias :: vec
  output_kernel :: mat

record MultiHeadAttention_vars =
  heads :: "head_vars list"
  output_bias :: vec

definition head_built :: "nat \<Rightarrow> nat \<Rightarrow> nat \<Rightarrow> head_vars \<Rightarrow> bool" where
  "head_built k dq dv h =
     (is_mat dq k (query_kernel h) \<and> is_vec k (query_bias h) \<and>
      is_mat dv k (key_kernel h) \<and> is_vec k (key_bias h) \<and>
      is_mat dv k (value_kernel h) \<and> is_vec k (value_bias h) \<and>
      is_mat k dq (output_kernel h))"

definition MultiHeadAttention_built ::
  "MultiHeadAttention \<Rightarrow> nat \<Rightarrow> nat \<Rightarrow> MultiHeadAttention_vars \<Rightarrow> bool" where
  "MultiHeadAttention_built self dq dv vars =
     (length (heads vars) = mha_num_heads self \<and>
      list_all (head_built (mha_key_dim self) dq dv) (heads vars) \<and>
      is_vec dq (output_bias vars))"

definition softmax :: "vec \<Rightarrow> vec" where
  "softmax s = (let es = map exp s in map (\<lambda>e. e / sum_list es) es)"

definition project :: "mat \<Rightarrow> vec \<Rightarrow> nat \<Rightarrow> vec \<Rightarrow> vec" where
  "project w b n x = map2 (+) (vec_mat x w n) b"

definition attend :: "nat \<Rightarrow> nat \<Rightarrow> head_vars \<Rightarrow> mat \<Rightarrow> vec \<Rightarrow> vec" where
  "attend k d h val x =
     (let q = map (\<lambda>a. a / sqrt (real k)) (project (query_kernel h) (query_bias h) k x);
          ks = map (project (key_kernel h) (key_bias h) k) val;
          vs = map (project (value_kernel h) (value_bias h) k) val;
          scores = softmax (map (dot q) ks)
      in vec_mat (vec_mat scores vs k) (output_kernel h) d)"

definition MultiHeadAttention_call ::
  "MultiHeadAttention \<Rightarrow> MultiHeadAttention_vars \<Rightarrow> mat \<Rightarrow> mat \<Rightarrow> error + mat" where
  "MultiHeadAttention_call self vars query val =
     (if list_all (\<lambda>x. list_all (\<lambda>v.
            MultiHeadAttention_built self (length x) (length v) vars) val) query
      then Inr (map (\<lambda>x. foldl (map2 (+)) (output_bias vars)
                          (map (\<lambda>h. attend (mha_key_dim self) (length x) h val x) (heads vars)))
                  query)
      else Inl ShapeMismatch)"

section \<open>TransformerBlock\<close>

text \<open>
  \<open>default_arg\<close> is the value of a parameter that has a default: the default when the
  caller leaves the argument out (\<open>None\<close>), otherwise the argument.
\<close>

definition default_arg :: "'a \<Rightarrow> 'a option \<Rightarrow> 'a" where
  "default_arg d a = (case a of None \<Rightarrow> d | Some v \<Rightarrow> v)"

record TransformerBlock =
  att :: MultiHeadAttention
  ffn :: "Dense list"
  layernorm_a :: LayerNormalization
  layernorm_b :: LayerNormalization
  dropout_a :: Dropout
  dropout_b :: Dropout

record TransformerBlock_vars =
  att_vars :: MultiHeadAttention_vars
  ffn_vars :: "Dense_vars list"
  layernorm_a_vars :: LayerNormalization_vars
  layernorm_b_vars :: LayerNormalization_vars

definition TransformerBlock_init :: "nat \<Rightarrow> nat \<Rightarrow> nat \<Rightarrow> real option \<Rightarrow> TransformerBlock" where
  "TransformerBlock_init embed_dim num_heads ff_dim rate =
     (let rate = default_arg (1 / 10) rate
      in \<lparr>att = \<lparr>mha_num_heads = num_heads, mha_key_dim = embed_dim\<rparr>,
          ffn = [\<lparr>units = ff_dim, activation = Some Relu\<rparr>,
                 \<lparr>units = embed_dim, activation = None\<rparr>],
          layernorm_a = \<lparr>epsilon = 1 / 1000000\<rparr>,
          layernorm_b = \<lparr>epsilon = 1 / 1000000\<rparr>,
          dropout_a = \<lparr>dropout_rate = rate\<rparr>,
          dropout_b = \<lparr>dropout_rate = rate\<rparr>\<rparr>)"

definition TransformerBlock_call ::
  "TransformerBlock \<Rightarrow> TransformerBlock_vars \<Rightarrow> mat \<Rightarrow> bool \<Rightarrow> rng \<Rightarrow> error + (mat \<times> rng)" where
  "TransformerBlock_call self vars inputs training g =
     (case MultiHeadAttention_call (att self) (att_vars vars) inputs inputs of
        Inl e \<Rightarrow> Inl e
      | Inr attn_output \<Rightarrow>
     (case Dropout_call_seq (dropout_a self) attn_output training g of
        (attn_output, g) \<Rightarrow>
     (case add_mat inputs attn_output of
        Inl e \<Rightarrow> Inl e
      | Inr sum_a \<Rightarrow>
     (case LayerNormalization_call (layernorm_a self) (layernorm_a_vars vars) sum_a of
        Inl e \<Rightarrow> Inl e
      | Inr out_a \<Rightarrow>
     (case Sequential_call (ffn self) (ffn_vars vars) out_a of
        Inl e \<Rightarrow> Inl e
      | Inr ffn_output \<Rightarrow>
     (case Dropout_call_seq (dropout_b self) ffn_output training g of
        (ffn_output, g) \<Rightarrow>
     (case add_mat out_a ffn_output of
        Inl e \<Rightarrow> Inl e
      | Inr sum_b \<Rightarrow>
     (case LayerNormalization_call (layernorm_b self) (layernorm_b_vars vars) sum_b of
        Inl e \<Rightarrow> Inl e
      | Inr out_b \<Rightarrow> Inr (out_b, g)))))))))"

section \<open>Layers of the model head\<close>

text \<open>
  Modelled from the spec: the framework layer \<^verbatim>\<open>layers.GlobalAveragePooling1D\<close> is
  not part of the repository. It reduces a sequence of vectors to one vector by
  averaging across the sequence axis.
\<close>

definition GlobalAveragePooling1D_call :: "mat \<Rightarrow> error + vec" where
  "GlobalAveragePooling1D_call xs =
     (case xs of
        [] \<Rightarrow> Inl NotANumber
      | x # _ \<Rightarrow>
          if list_all (\<lambda>r. length r = length x) xs
          then Inr (map (\<lambda>j. mean (column xs j)) [0..<length x])
          else Inl ShapeMismatch)"

text \<open>
  Modelled from the spec: the framework layer \<^verbatim>\<open>layers.Concatenate\<close> is not part of
  the repository. It joins feature vectors along the feature axis.
\<close>

definition Concatenate_call :: "vec list \<Rightarrow> vec" where
  "Concatenate_call xs = concat xs"

section \<open>Model graphs\<close>

text \<open>
  A builder does not compute on numbers: it calls layers on symbolic tensors and
  returns the graph that these calls record. A symbolic tensor is either a placeholder
  made by \<^verbatim>\<open>layers.Input\<close>, identified by the order in which the builder creates it
  and carrying its shape (the batch axis left out), or the result of calling a layer
  on symbolic tensors. A model names its placeholders and its output.
\<close>

datatype layer =
    TokenAndPositionEmbedding_layer TokenAndPositionEmbedding
  | TransformerBlock_layer TransformerBlock
  | GlobalAveragePooling1D
  | Dropout_layer Dropout
  | Dense_layer Dense
  | Concatenate

datatype ktensor = Input nat "nat list" | Call layer "ktensor list"

record Model =
  model_inputs :: "ktensor list"
  model_outputs :: ktensor
  model_name :: string

definition get_next_activity_model ::
  "nat \<Rightarrow> nat \<Rightarrow> nat \<Rightarrow> nat option \<Rightarrow> nat option \<Rightarrow> nat option \<Rightarrow> Model" where
  "get_next_activity_model max_case_length vocab_size output_dim embed_dim num_heads ff_dim =
     (let embed_dim = default_arg 36 embed_dim;
          num_heads = default_arg 4 num_heads;
          ff_dim = default_arg 64 ff_dim;
          inputs = Input 0 [max_case_length];
          x = Call (TokenAndPositionEmbedding_layer
                      (TokenAndPositionEmbedding_init max_case_length vocab_size embed_dim)) [inputs];
          x = Call (TransformerBlock_layer (TransformerBlock_init embed_dim num_heads ff_dim None)) [x];
          x = Call GlobalAveragePooling1D [x];
          x = Call (Dropout_layer \<lparr>dropout_rate = 1 / 10\<rparr>) [x];
          x = Call (Dense_layer \<lparr>units = 64, activation = Some Relu\<rparr>) [x];
          x = Call (Dropout_layer \<lparr>dropout_rate = 1 / 10\<rparr>) [x];
          outputs = Call (Dense_layer \<lparr>units = output_dim, activation = Some Linear\<rparr>) [x]
      in \<lparr>model_inputs = [inputs], model_outputs = outputs, model_name = ''next_activity_transformer''\<rparr>)"

definition get_next_time_model ::
  "nat \<Rightarrow> nat \<Rightarrow> nat option \<Rightarrow> nat option \<Rightarrow> nat option \<Rightarrow> nat option \<Rightarrow> Model" where
  "get_next_time_model max_case_length vocab_size output_dim embed_dim num_heads ff_dim =
     (let output_dim = default_arg 1 output_dim;
          embed_dim = default_arg 36 embed_dim;
          num_heads = default_arg 4 num_heads;
          ff_dim = default_arg 64 ff_dim;
          inputs = Input 0 [max_case_length];
          time_inputs = Input 1 [3];
          x = Call (TokenAndPositionEmbedding_layer
                      (TokenAndPositionEmbedding_init max_case_length vocab_size embed_dim)) [inputs];
          x = Call (TransformerBlock_layer (TransformerBlock_init embed_dim num_heads ff_dim None)) [x];
          x = Call GlobalAveragePooling1D [x];
          x_t = Call (Dense_layer \<lparr>units = 32, activation = Some Relu\<rparr>) [time_inputs];
          x = Call Concatenate [x, x_t];
          x = Call (Dropout_layer \<lparr>dropout_rate = 1 / 10\<rparr>) [x];
          x = Call (Dense_layer \<lparr>units = 128, activation = Some Relu\<rparr>) [x];
          x = Call (Dropout_layer \<lparr>dropout_rate = 1 / 10\<rparr>) [x];
          outputs = Call (Dense_layer \<lparr>units = output_dim, activation = Some Linear\<rparr>) [x]
      in \<lparr>model_inputs = [inputs, time_inputs], model_outputs = outputs, model_name = ''next_time_transformer''\<rparr>)"

definition get_remaining_time_model ::
  "nat \<Rightarrow> nat \<Rightarrow> nat option \<Rightarrow> nat option \<Rightarrow> nat option \<Rightarrow> nat option \<Rightarrow> Model" where
  "get_remaining_time_model max_case_length vocab_size output_dim embed_dim num_heads ff_dim =
     (let output_dim = default_arg 1 output_dim;
          embed_dim = default_arg 36 embed_dim;
          num_heads = default_arg 4 num_heads;
          ff_dim = default_arg 64 ff_dim;
          inputs = Input 0 [max_case_length];
          time_inputs = Input 1 [3];
          x = Call (TokenAndPositionEmbedding_layer
                      (TokenAndPositionEmbedding_init max_case_length vocab_size embed_dim)) [inputs];
          x = Call (TransformerBlock_layer (TransformerBlock_init embed_dim num_heads ff_dim None)) [x];
          x = Call GlobalAveragePooling1D [x];
          x_t = Call (Dense_layer \<lparr>units = 32, activation = Some Relu\<rparr>) [time_inputs];
          x = Call Concatenate [x, x_t];
          x = Call (Dropout_layer \<lparr>dropout_rate = 1 / 10\<rparr>) [x];
          x = Call (Dense_layer \<lparr>units = 128, activation = Some Relu\<rparr>) [x];
          x = Call (Dropout_layer \<lparr>dropout_rate = 1 / 10\<rparr>) [x];
          outputs = Call (Dense_layer \<lparr>units = output_dim, activation = Some Linear\<rparr>) [x]
      in \<lparr>model_inputs = [inputs, time_inputs], model_outputs = outputs, model_name = ''remaining_time_transformer''\<rparr>)"

subsection \<open>Shapes of symbolic tensors\<close>

text \<open>
  When a layer is called on a symbolic tensor the framework derives the shape of the
  result from the shape of the argument, and raises when the shapes do not fit the
  layer. The shapes leave out the batch axis.
\<close>

definition broadcast_dim :: "nat \<Rightarrow> nat \<Rightarrow> error + nat" where
  "broadcast_dim a b =
     (if a = b then Inr a else if a = 1 then Inr b else if b = 1 then Inr a
      else Inl ShapeMismatch)"

definition compute_output_shape :: "layer \<Rightarrow> nat list list \<Rightarrow> error + nat list" where
  "compute_output_shape l shapes =
     (case l of
        TokenAndPositionEmbedding_layer e \<Rightarrow>
          (case shapes of
             [[n]] \<Rightarrow>
               (case broadcast_dim (emb_output_dim (token_emb e)) (emb_output_dim (pos_emb e)) of
                  Inl err \<Rightarrow> Inl err
                | Inr d \<Rightarrow> Inr [n, d])
           | _ \<Rightarrow> Inl ShapeMismatch)
      | TransformerBlock_layer b \<Rightarrow>
          (case shapes of
             [[n, d]] \<Rightarrow>
               (case broadcast_dim d (foldl (\<lambda>_ dense. units dense) d (ffn b)) of
                  Inl err \<Rightarrow> Inl err
                | Inr d' \<Rightarrow> Inr [n, d'])
           | _ \<Rightarrow> Inl ShapeMismatch)
      | GlobalAveragePooling1D \<Rightarrow>
          (case shapes of [[n, d]] \<Rightarrow> Inr [d] | _ \<Rightarrow> Inl ShapeMismatch)
      | Dropout_layer _ \<Rightarrow>
          (case shapes of [s] \<Rightarrow> Inr s | _ \<Rightarrow> Inl ShapeMismatch)
      | Dense_layer dense \<Rightarrow>
          (case shapes of
             [s] \<Rightarrow> if s = [] then Inl ShapeMismatch else Inr (butlast s @ [units dense])
           | _ \<Rightarrow> Inl ShapeMismatch)
      | Concatenate \<Rightarrow>
          (if shapes \<noteq> [] \<and> list_all (\<lambda>s. s \<noteq> [] \<and> butlast s = butlast (hd shapes)) shapes
           then Inr (butlast (hd shapes) @ [sum_list (map last shapes)])
           else Inl ShapeMismatch))"

fun shape_of :: "ktensor \<Rightarrow> error + nat list" where
  "shape_of (Input i s) = Inr s"
| "shape_of (Call l args) =
     (case collect (map shape_of args) of
        Inl e \<Rightarrow> Inl e
      | Inr shapes \<Rightarrow> compute_output_shape l shapes)"

subsection \<open>Running a model\<close>

text \<open>
  The variables of the layers (embedding tables, kernels, biases, scales and shifts)
  are owned by the graph and changed by training only. They are kept apart from the
  graph, in a tree of its shape: the variables of the layer of a call, then the trees
  of the arguments of the call. A tensor fed to a model is a sequence of token
  identifiers or a vector of numbers.
\<close>

datatype layer_vars =
    No_vars
  | Dense_v Dense_vars
  | TokenAndPositionEmbedding_v TokenAndPositionEmbedding_vars
  | TransformerBlock_v TransformerBlock_vars

datatype vars_tree = Vars layer_vars "vars_tree list"

datatype tensor = Ids "int list" | Vec vec | Seq mat

definition lift_pure :: "('a \<Rightarrow> tensor) \<Rightarrow> rng \<Rightarrow> error + 'a \<Rightarrow> error + (tensor \<times> rng)" where
  "lift_pure c g r = (case r of Inl e \<Rightarrow> Inl e | Inr y \<Rightarrow> Inr (c y, g))"

definition vecs_of :: "tensor list \<Rightarrow> error + vec list" where
  "vecs_of ts = collect (map (\<lambda>t. case t of Vec v \<Rightarrow> Inr v | _ \<Rightarrow> Inl ShapeMismatch) ts)"

text \<open>
  Calling a layer of the graph on tensors: the \<open>training\<close> flag of the model is handed
  to every layer, and the random generator to the layers that draw from it.
\<close>

definition layer_call ::
  "layer \<Rightarrow> layer_vars \<Rightarrow> tensor list \<Rightarrow> bool \<Rightarrow> rng \<Rightarrow> error + (tensor \<times> rng)" where
  "layer_call l v xs training g =
     (case l of
        TokenAndPositionEmbedding_layer e \<Rightarrow>
          (case (v, xs) of
             (TokenAndPositionEmbedding_v w, [Ids x]) \<Rightarrow>
               lift_pure Seq g (TokenAndPositionEmbedding_call e w x)
           | _ \<Rightarrow> Inl ShapeMismatch)
      | TransformerBlock_layer b \<Rightarrow>
          (case (v, xs) of
             (TransformerBlock_v w, [Seq x]) \<Rightarrow>
               (case TransformerBlock_call b w x training g of
                  Inl err \<Rightarrow> Inl err
                | Inr (y, g') \<Rightarrow> Inr (Seq y, g'))
           | _ \<Rightarrow> Inl ShapeMismatch)
      | GlobalAveragePooling1D \<Rightarrow>
          (case (v, xs) of
             (No_vars, [Seq x]) \<Rightarrow> lift_pure Vec g (GlobalAveragePooling1D_call x)
           | _ \<Rightarrow> Inl ShapeMismatch)
      | Dropout_layer d \<Rightarrow>
          (case (v, xs) of
             (No_vars, [Vec x]) \<Rightarrow>
               (case Dropout_call d x training g of (y, g') \<Rightarrow> Inr (Vec y, g'))
           | (No_vars, [Seq x]) \<Rightarrow>
               (case Dropout_call_seq d x training g of (y, g') \<Rightarrow> Inr (Seq y, g'))
           | _ \<Rightarrow> Inl ShapeMismatch)
      | Dense_layer d \<Rightarrow>
          (case (v, xs) of
             (Dense_v w, [Vec x]) \<Rightarrow> lift_pure Vec g (Dense_call d w x)
           | (Dense_v w, [Seq x]) \<Rightarrow> lift_pure Seq g (Dense_call_seq d w x)
           | _ \<Rightarrow> Inl ShapeMismatch)
      | Concatenate \<Rightarrow>
          (case v of
             No_vars \<Rightarrow> lift_pure Vec g (map_sum id Concatenate_call (vecs_of xs))
           | _ \<Rightarrow> Inl ShapeMismatch))"

fun run :: "(ktensor \<times> tensor) list \<Rightarrow> bool \<Rightarrow> ktensor \<Rightarrow> vars_tree \<Rightarrow> rng \<Rightarrow> error + (tensor \<times> rng)"
  and run_args :: "(ktensor \<times> tensor) list \<Rightarrow> bool \<Rightarrow> ktensor list \<Rightarrow> vars_tree list \<Rightarrow> rng
                     \<Rightarrow> error + (tensor list \<times> rng)" where
  "run feed training (Input i s) vt g =
     (case map_of feed (Input i s) of None \<Rightarrow> Inl InvalidArgument | Some t \<Rightarrow> Inr (t, g))"
| "run feed training (Call l args) (Vars v vs) g =
     (case run_args feed training args vs g of
        Inl e \<Rightarrow> Inl e
      | Inr (ts, g') \<Rightarrow> layer_call l v ts training g')"
| "run_args feed training [] [] g = Inr ([], g)"
| "run_args feed training (a # as) (v # vs) g =
     (case run feed training a v g of
        Inl e \<Rightarrow> Inl e
      | Inr (t, g') \<Rightarrow>
          (case run_args feed training as vs g' of
             Inl e \<Rightarrow> Inl e
           | Inr (ts, g'') \<Rightarrow> Inr (t # ts, g'')))"
| "run_args feed training [] (v # vs) g = Inl ShapeMismatch"
| "run_args feed training (a # as) [] g = Inl ShapeMismatch"

text \<open>
  A tensor fed to a placeholder has the placeholder's shape; the model raises
  otherwise, and when the number of tensors is not the number of placeholders.
\<close>

definition fits :: "ktensor \<Rightarrow> tensor \<Rightarrow> bool" where
  "fits k t =
     (case k of
        Input i s \<Rightarrow>
          (case t of
             Ids x \<Rightarrow> s = [length x]
           | Vec x \<Rightarrow> s = [length x]
           | Seq x \<Rightarrow> (case s of [n, d] \<Rightarrow> is_mat n d x | _ \<Rightarrow> False))
      | Call _ _ \<Rightarrow> False)"

definition Model_call ::
  "Model \<Rightarrow> vars_tree \<Rightarrow> tensor list \<Rightarrow> bool \<Rightarrow> rng \<Rightarrow> error + (tensor \<times> rng)" where
  "Model_call m vars xs training g =
     (if length xs = length (model_inputs m) \<and> list_all (\<lambda>(k, t). fits k t) (zip (model_inputs m) xs)
      then run (zip (model_inputs m) xs) training (model_outputs m) vars g
      else Inl ShapeMismatch)"

section \<open>Variables as the framework builds them\<close>

text \<open>
  The framework creates the variables of a layer for the feature size of the first
  input the layer is called on. The predicates say that given variables have the
  shapes the framework would have created for inputs of feature size \<open>d\<close>. (For a
  dense layer and for layer normalization they are \<open>Dense_built\<close> and
  \<open>LayerNormalization_built\<close> above.)
\<close>

definition TokenAndPositionEmbedding_built ::
  "TokenAndPositionEmbedding \<Rightarrow> TokenAndPositionEmbedding_vars \<Rightarrow> bool" where
  "TokenAndPositionEmbedding_built self vars =
     (is_mat (emb_input_dim (token_emb self)) (emb_output_dim (token_emb self)) (token_emb_table vars) \<and>
      is_mat (emb_input_dim (pos_emb self)) (emb_output_dim (pos_emb self)) (pos_emb_table vars))"

fun Sequential_built :: "Dense list \<Rightarrow> nat \<Rightarrow> Dense_vars list \<Rightarrow> bool" where
  "Sequential_built [] n [] = True"
| "Sequential_built (l # ls) n (v # vs) = (Dense_built l n v \<and> Sequential_built ls (units l) vs)"
| "Sequential_built _ n _ = False"

definition TransformerBlock_built :: "TransformerBlock \<Rightarrow> nat \<Rightarrow> TransformerBlock_vars \<Rightarrow> bool" where
  "TransformerBlock_built self d vars =
     (MultiHeadAttention_built (att self) d d (att_vars vars) \<and>
      LayerNormalization_built d (layernorm_a_vars vars) \<and>
      Sequential_built (ffn self) d (ffn_vars vars) \<and>
      (case broadcast_dim d (foldl (\<lambda>_ dense. units dense) d (ffn self)) of
         Inl _ \<Rightarrow> False
       | Inr d' \<Rightarrow> LayerNormalization_built d' (layernorm_b_vars vars)))"

text \<open>
  The variables of the next-activity model, in the shape of its graph: the output
  layer, the hidden layer, the transformer block and the embedding own variables, the
  dropouts, the pooling and the placeholder own none.
\<close>

definition next_activity_vars ::
  "TokenAndPositionEmbedding_vars \<Rightarrow> TransformerBlock_vars \<Rightarrow> Dense_vars \<Rightarrow> Dense_vars \<Rightarrow> vars_tree" where
  "next_activity_vars w_emb w_block w_hidden w_out =
     Vars (Dense_v w_out) [Vars No_vars [Vars (Dense_v w_hidden) [Vars No_vars [Vars No_vars
       [Vars (TransformerBlock_v w_block) [Vars (TokenAndPositionEmbedding_v w_emb)
         [Vars No_vars []]]]]]]]"

text \<open>Variables filled with one value, as a constant initializer of the framework fills them.\<close>

definition constant_mat :: "nat \<Rightarrow> nat \<Rightarrow> real \<Rightarrow> mat" where
  "constant_mat r c a = replicate r (replicate c a)"

definition Dense_constant :: "nat \<Rightarrow> nat \<Rightarrow> real \<Rightarrow> Dense_vars" where
  "Dense_constant n m a = \<lparr>kernel = constant_mat n m a, bias = replicate m a\<rparr>"

definition LayerNormalization_constant :: "nat \<Rightarrow> real \<Rightarrow> LayerNormalization_vars" where
  "LayerNormalization_constant n a = \<lparr>gamma = replicate n a, beta = replicate n a\<rparr>"

definition head_constant :: "nat \<Rightarrow> nat \<Rightarrow> real \<Rightarrow> head_vars" where
  "head_constant k d a =
     \<lparr>query_kernel = constant_mat d k a, query_bias = replicate k a,
      key_kernel = constant_mat d k a, key_bias = replicate k a,
      value_kernel = constant_mat d k a, value_bias = replicate k a,
      output_kernel = constant_mat k d a\<rparr>"

definition TransformerBlock_constant :: "nat \<Rightarrow> nat \<Rightarrow> nat \<Rightarrow> real \<Rightarrow> TransformerBlock_vars" where
  "TransformerBlock_constant embed_dim num_heads ff_dim a =
     \<lparr>att_vars = \<lparr>heads = replicate num_heads (head_constant embed_dim embed_dim a),
                  output_bias = replicate embed_dim a\<rparr>,
      ffn_vars = [Dense_constant embed_dim ff_dim a, Dense_constant ff_dim embed_dim a],
      layernorm_a_vars = LayerNormalization_constant embed_dim a,
      layernorm_b_vars = LayerNormalization_constant embed_dim a\<rparr>"

definition TokenAndPositionEmbedding_constant ::
  "nat \<Rightarrow> nat \<Rightarrow> nat \<Rightarrow> real \<Rightarrow> TokenAndPositionEmbedding_vars" where
  "TokenAndPositionEmbedding_constant maxlen vocab_size embed_dim a =
     \<lparr>token_emb_table = constant_mat vocab_size embed_dim a,
      pos_emb_table = constant_mat maxlen embed_dim a\<rparr>"

section \<open>The specification's description of the block and of the model heads\<close>

text \<open>
  The six steps of the transformer block as the specification lists them, each a
  definition of its own, and their composition in the listed order. An error of a step
  ends the computation.
\<close>

definition and_then :: "error + 'a \<Rightarrow> ('a \<Rightarrow> error + 'b) \<Rightarrow> error + 'b" where
  "and_then r f = (case r of Inl e \<Rightarrow> Inl e | Inr x \<Rightarrow> f x)"

definition step1_self_attention ::
  "nat \<Rightarrow> nat \<Rightarrow> MultiHeadAttention_vars \<Rightarrow> mat \<Rightarrow> error + mat" where
  "step1_self_attention num_heads embed_dim w x =
     MultiHeadAttention_call \<lparr>mha_num_heads = num_heads, mha_key_dim = embed_dim\<rparr> w x x"

definition step2_dropout :: "real \<Rightarrow> mat \<Rightarrow> bool \<Rightarrow> rng \<Rightarrow> mat \<times> rng" where
  "step2_dropout rate a training g = Dropout_call_seq \<lparr>dropout_rate = rate\<rparr> a training g"

definition step3_residual_norm :: "LayerNormalization_vars \<Rightarrow> mat \<Rightarrow> mat \<Rightarrow> error + mat" where
  "step3_residual_norm w x a =
     and_then (add_mat x a) (LayerNormalization_call \<lparr>epsilon = 1 / 1000000\<rparr> w)"

definition step4_feed_forward ::
  "nat \<Rightarrow> nat \<Rightarrow> Dense_vars \<Rightarrow> Dense_vars \<Rightarrow> mat \<Rightarrow> error + mat" where
  "step4_feed_forward ff_dim embed_dim w1 w2 y =
     and_then (Dense_call_seq \<lparr>units = ff_dim, activation = Some Relu\<rparr> w1 y)
              (Dense_call_seq \<lparr>units = embed_dim, activation = None\<rparr> w2)"

definition step5_dropout :: "real \<Rightarrow> mat \<Rightarrow> bool \<Rightarrow> rng \<Rightarrow> mat \<times> rng" where
  "step5_dropout rate f training g = Dropout_call_seq \<lparr>dropout_rate = rate\<rparr> f training g"

definition step6_residual_norm :: "LayerNormalization_vars \<Rightarrow> mat \<Rightarrow> mat \<Rightarrow> error + mat" where
  "step6_residual_norm w y f =
     and_then (add_mat y f) (LayerNormalization_call \<lparr>epsilon = 1 / 1000000\<rparr> w)"

definition six_steps ::
  "nat \<Rightarrow> nat \<Rightarrow> nat \<Rightarrow> real \<Rightarrow> MultiHeadAttention_vars \<Rightarrow> Dense_vars \<Rightarrow> Dense_vars \<Rightarrow>
   LayerNormalization_vars \<Rightarrow> LayerNormalization_vars \<Rightarrow> mat \<Rightarrow> bool \<Rightarrow> rng \<Rightarrow> error + (mat \<times> rng)" where
  "six_steps embed_dim num_heads ff_dim rate w_att w1 w2 w_a w_b x training g =
     and_then (step1_self_attention num_heads embed_dim w_att x) (\<lambda>a.
       case step2_dropout rate a training g of (a', g1) \<Rightarrow>
         and_then (step3_residual_norm w_a x a') (\<lambda>y.
           and_then (step4_feed_forward ff_dim embed_dim w1 w2 y) (\<lambda>f.
             case step5_dropout rate f training g1 of (f', g2) \<Rightarrow>
               and_then (step6_residual_norm w_b y f') (\<lambda>out. Inr (out, g2)))))"

text \<open>
  The pipeline of the model heads as the specification describes it: the sequence is
  embedded, passed through one transformer block and averaged across the sequence
  axis; the head is dropout(0.1), a dense hidden layer with rectified-linear
  activation, dropout(0.1) and a dense linear output layer. The time models pass the
  three numeric features through a dense layer of 32 units with rectified-linear
  activation and join the result to the pooled sequence before the head.
\<close>

definition pooled_sequence :: "nat \<Rightarrow> nat \<Rightarrow> nat \<Rightarrow> nat \<Rightarrow> nat \<Rightarrow> ktensor" where
  "pooled_sequence max_case_length vocab_size embed_dim num_heads ff_dim =
     Call GlobalAveragePooling1D
       [Call (TransformerBlock_layer (TransformerBlock_init embed_dim num_heads ff_dim None))
          [Call (TokenAndPositionEmbedding_layer
                   (TokenAndPositionEmbedding_init max_case_length vocab_size embed_dim))
             [Input 0 [max_case_length]]]]"

definition head_pipeline :: "nat \<Rightarrow> nat \<Rightarrow> ktensor \<Rightarrow> ktensor" where
  "head_pipeline hidden output_dim z =
     Call (Dense_layer \<lparr>units = output_dim, activation = Some Linear\<rparr>)
       [Call (Dropout_layer \<lparr>dropout_rate = 1 / 10\<rparr>)
          [Call (Dense_layer \<lparr>units = hidden, activation = Some Relu\<rparr>)
             [Call (Dropout_layer \<lparr>dropout_rate = 1 / 10\<rparr>) [z]]]]"

definition with_time_features :: "ktensor \<Rightarrow> ktensor" where
  "with_time_features z =
     Call Concatenate [z, Call (Dense_layer \<lparr>units = 32, activation = Some Relu\<rparr>) [Input 1 [3]]]"

text \<open>
  \<open>replace_rng g r\<close> is the result \<open>r\<close> of a run with the generator it returns replaced
  by \<open>g\<close>: the same error, or the same tensor.
\<close>

definition replace_rng :: "rng \<Rightarrow> error + ('a \<times> rng) \<Rightarrow> error + ('a \<times> rng)" where
  "replace_rng g r = (case r of Inl e \<Rightarrow> Inl e | Inr (t, _) \<Rightarrow> Inr (t, g))"

section \<open>Shapes of sums and lookups\<close>

lemma tf_range_upto: "tf_range 0 (int n) 1 = map int [0..<n]"
  by (simp add: tf_range_def)

lemma collect_Inr: "(\<And>x. x \<in> set xs \<Longrightarrow> f x = Inr (h x)) \<Longrightarrow> collect (map f xs) = Inr (map h xs)"
  by (induction xs) auto

lemma add_vec_same: "length u = length v \<Longrightarrow> add_vec u v = Inr (map2 (+) u v)"
  by (simp add: add_vec_def)

lemma add_mat_same:
  assumes "is_mat n d a" "is_mat n d b"
  shows "add_mat a b = Inr (map2 (map2 (+)) a b)"
proof -
  have len: "length a = length b" using assms by (simp add: is_mat_def)
  have "\<And>p. p \<in> set (zip a b) \<Longrightarrow> (\<lambda>(u, v). add_vec u v) p = Inr ((\<lambda>(u, v). map2 (+) u v) p)"
    using assms by (auto simp: is_mat_def list_all_iff add_vec_same elim!: in_set_zipE)
  then have "collect (map (\<lambda>(u, v). add_vec u v) (zip a b)) = Inr (map (\<lambda>(u, v). map2 (+) u v) (zip a b))"
    by (rule collect_Inr)
  then show ?thesis using len by (simp add: add_mat_def)
qed

lemma is_mat_map2_add:
  assumes "is_mat n d a" "is_mat n d b"
  shows "is_mat n d (map2 (map2 (+)) a b)"
  using assms by (auto simp: is_mat_def list_all_iff elim!: in_set_zipE)

lemma Embedding_call_ok:
  assumes "is_mat (emb_input_dim self) (emb_output_dim self) table"
    and "list_all (\<lambda>i. 0 \<le> i \<and> i < int (emb_input_dim self)) ids"
  shows "Embedding_call self table ids = Inr (map (\<lambda>i. table ! nat i) ids)"
  using assms by (simp add: Embedding_call_def)

lemma is_mat_lookup:
  assumes "is_mat r c table" "list_all (\<lambda>i. 0 \<le> i \<and> i < int r) ids"
  shows "is_mat (length ids) c (map (\<lambda>i. table ! nat i) ids)"
  using assms by (auto simp: is_mat_def list_all_iff)

lemma positions_in_range: "n \<le> m \<Longrightarrow> list_all (\<lambda>i. 0 \<le> i \<and> i < int m) (map int [0..<n])"
  by (auto simp: list_all_iff)

lemma positions_out_of_range: "m < n \<Longrightarrow> \<not> list_all (\<lambda>i. 0 \<le> i \<and> i < int m) (map int [0..<n])"
  by (auto simp: list_all_iff intro!: bexI[of _ "m"])

lemma TokenAndPositionEmbedding_call_ok:
  assumes tok: "is_mat vocab_size embed_dim (token_emb_table vars)"
    and pos: "is_mat maxlen embed_dim (pos_emb_table vars)"
    and len: "length x \<le> maxlen"
    and ids: "list_all (\<lambda>t. 0 \<le> t \<and> t < int vocab_size) x"
  shows "TokenAndPositionEmbedding_call (TokenAndPositionEmbedding_init maxlen vocab_size embed_dim) vars x
         = Inr (map2 (map2 (+)) (map (\<lambda>t. token_emb_table vars ! nat t) x)
                                (map (\<lambda>i. pos_emb_table vars ! nat i) (map int [0..<length x])))"
proof -
  let ?P = "map (\<lambda>i. pos_emb_table vars ! nat i) (map int [0..<length x])"
  let ?T = "map (\<lambda>t. token_emb_table vars ! nat t) x"
  have p: "is_mat (length x) embed_dim ?P"
    using is_mat_lookup[OF pos positions_in_range[OF len]] by simp
  have t: "is_mat (length x) embed_dim ?T"
    using is_mat_lookup[OF tok ids] .
  show ?thesis
    using tok pos ids positions_in_range[OF len] add_mat_same[OF t p]
    by (simp add: TokenAndPositionEmbedding_call_def TokenAndPositionEmbedding_init_def
        tf_range_upto Embedding_call_def)
qed

lemma TokenAndPositionEmbedding_call_too_long:
  assumes pos: "is_mat maxlen embed_dim (pos_emb_table vars)"
    and len: "maxlen < length x"
  shows "TokenAndPositionEmbedding_call (TokenAndPositionEmbedding_init maxlen vocab_size embed_dim) vars x
         = Inl InvalidArgument"
  using pos positions_out_of_range[OF len]
  by (simp add: TokenAndPositionEmbedding_call_def TokenAndPositionEmbedding_init_def
        tf_range_upto Embedding_call_def)

section \<open>The layers of the block keep the shape of a sequence\<close>

lemma is_matI: "length m = r \<Longrightarrow> (\<And>row. row \<in> set m \<Longrightarrow> length row = c) \<Longrightarrow> is_mat r c m"
  by (simp add: is_mat_def list_all_iff)

lemma is_matD: "is_mat r c m \<Longrightarrow> length m = r" "is_mat r c m \<Longrightarrow> row \<in> set m \<Longrightarrow> length row = c"
  by (simp_all add: is_mat_def list_all_iff)

lemma length_vec_mat: "length (vec_mat x w n) = n"
  by (simp add: vec_mat_def)

lemma length_attend: "length (attend k d h val x) = d"
  by (simp add: attend_def Let_def length_vec_mat)

lemma length_foldl_add:
  "length b = d \<Longrightarrow> (\<And>v. v \<in> set vs \<Longrightarrow> length v = d) \<Longrightarrow> length (foldl (map2 (+)) b vs) = d"
  by (induction vs arbitrary: b) auto

lemma MultiHeadAttention_call_ok:
  assumes built: "MultiHeadAttention_built self d d vars" and x: "is_mat n d x"
  shows "\<exists>y. MultiHeadAttention_call self vars x x = Inr y \<and> is_mat n d y"
proof -
  let ?row = "\<lambda>q. foldl (map2 (+)) (output_bias vars)
                 (map (\<lambda>h. attend (mha_key_dim self) (length q) h x q) (heads vars))"
  have chk: "list_all (\<lambda>q. list_all (\<lambda>v. MultiHeadAttention_built self (length q) (length v) vars) x) x"
    using built is_matD(2)[OF x] by (simp add: list_all_iff)
  have bo: "length (output_bias vars) = d"
    using built by (simp add: MultiHeadAttention_built_def is_vec_def)
  have "is_mat n d (map ?row x)"
  proof (rule is_matI)
    show "length (map ?row x) = n" using is_matD(1)[OF x] by simp
  next
    fix row assume "row \<in> set (map ?row x)"
    then obtain q where q: "q \<in> set x" and row: "row = ?row q" by auto
    have "length q = d" using is_matD(2)[OF x q] .
    then show "length row = d" unfolding row
      by (intro length_foldl_add bo) (auto simp: length_attend)
  qed
  then show ?thesis using chk by (simp add: MultiHeadAttention_call_def)
qed

lemma length_dropped_inputs: "length (fst (dropped_inputs r x g)) = length x"
  by (simp add: dropped_inputs_def)

lemma is_mat_dropped_rows: "is_mat n d x \<Longrightarrow> is_mat n d (fst (dropped_rows r x g))"
proof (induction x arbitrary: n g)
  case Nil
  then show ?case by simp
next
  case (Cons a x)
  obtain y g' where y: "dropped_inputs r a g = (y, g')" by (cases "dropped_inputs r a g")
  obtain ys g'' where ys: "dropped_rows r x g' = (ys, g'')" by (cases "dropped_rows r x g'")
  have "length y = length a" using length_dropped_inputs[of r a g] y by simp
  moreover have "is_mat (length x) d ys"
    using Cons.IH[of "length x" g'] Cons.prems ys by (simp add: is_mat_def)
  ultimately show ?case using Cons.prems y ys by (simp add: is_mat_def)
qed

lemma is_mat_Dropout_call_seq:
  "is_mat n d x \<Longrightarrow> is_mat n d (fst (Dropout_call_seq self x training g))"
  by (simp add: Dropout_call_seq_def is_mat_dropped_rows)

lemma length_normalize_row:
  "length gam = length x \<Longrightarrow> length bet = length x \<Longrightarrow> length (normalize_row eps gam bet x) = length x"
  by (simp add: normalize_row_def Let_def)

lemma LayerNormalization_call_ok:
  assumes built: "LayerNormalization_built d vars" and x: "is_mat n d x"
  shows "\<exists>y. LayerNormalization_call self vars x = Inr y \<and> is_mat n d y"
proof -
  have chk: "list_all (\<lambda>r. LayerNormalization_built (length r) vars) x"
    using built is_matD(2)[OF x] by (simp add: list_all_iff)
  have "is_mat n d (map (normalize_row (epsilon self) (gamma vars) (beta vars)) x)"
    using built x
    by (auto simp: is_mat_def list_all_iff LayerNormalization_built_def is_vec_def length_normalize_row)
  then show ?thesis using chk by (simp add: LayerNormalization_call_def)
qed

lemma Dense_call_ok:
  assumes "Dense_built self (length x) vars"
  shows "\<exists>y. Dense_call self vars x = Inr y \<and> length y = units self"
  using assms by (simp add: Dense_call_def Dense_built_def is_vec_def length_vec_mat)

lemma collect_ok:
  assumes "\<And>x. x \<in> set xs \<Longrightarrow> \<exists>y. f x = Inr y \<and> P y"
  shows "\<exists>ys. collect (map f xs) = Inr ys \<and> length ys = length xs \<and> list_all P ys"
  using assms
proof (induction xs)
  case Nil
  then show ?case by simp
next
  case (Cons a xs)
  then obtain y where y: "f a = Inr y" "P y" by auto
  from Cons obtain ys where "collect (map f xs) = Inr ys" "length ys = length xs" "list_all P ys"
    by auto
  with y show ?case by simp
qed

lemma Dense_call_seq_ok:
  assumes built: "Dense_built self d vars" and x: "is_mat n d x"
  shows "\<exists>y. Dense_call_seq self vars x = Inr y \<and> is_mat n (units self) y"
proof -
  have "\<And>r. r \<in> set x \<Longrightarrow> \<exists>y. Dense_call self vars r = Inr y \<and> length y = units self"
    using built is_matD(2)[OF x] by (auto intro: Dense_call_ok)
  from collect_ok[of x "Dense_call self vars" "\<lambda>y. length y = units self", OF this]
  show ?thesis using is_matD(1)[OF x] by (auto simp: Dense_call_seq_def is_mat_def)
qed

lemma Sequential_call_ok:
  "Sequential_built ls d vs \<Longrightarrow> is_mat n d x \<Longrightarrow>
   \<exists>y. Sequential_call ls vs x = Inr y \<and> is_mat n (foldl (\<lambda>_ dense. units dense) d ls) y"
proof (induction ls d vs arbitrary: x rule: Sequential_built.induct)
  case (2 l ls n' v vs)
  then obtain y where y: "Dense_call_seq l v x = Inr y" "is_mat n (units l) y"
    using Dense_call_seq_ok[of l n' v n x] by auto
  with 2 show ?case by auto
qed auto

lemma TransformerBlock_call_ok:
  assumes built: "TransformerBlock_built (TransformerBlock_init embed_dim num_heads ff_dim rate) embed_dim vars"
    and x: "is_mat n embed_dim inputs"
  shows "\<exists>out g'. TransformerBlock_call (TransformerBlock_init embed_dim num_heads ff_dim rate) vars inputs training g
                   = Inr (out, g') \<and> is_mat n embed_dim out"
proof -
  let ?b = "TransformerBlock_init embed_dim num_heads ff_dim rate"
  have b_att: "MultiHeadAttention_built (att ?b) embed_dim embed_dim (att_vars vars)"
    and b_lna: "LayerNormalization_built embed_dim (layernorm_a_vars vars)"
    and b_ffn: "Sequential_built (ffn ?b) embed_dim (ffn_vars vars)"
    and b_lnb: "LayerNormalization_built embed_dim (layernorm_b_vars vars)"
    using built
    by (simp_all add: TransformerBlock_built_def TransformerBlock_init_def Let_def broadcast_dim_def)
  have ffn_dim: "foldl (\<lambda>_ dense. units dense) embed_dim (ffn ?b) = embed_dim"
    by (simp add: TransformerBlock_init_def Let_def)
  obtain a where a: "MultiHeadAttention_call (att ?b) (att_vars vars) inputs inputs = Inr a"
      "is_mat n embed_dim a"
    using MultiHeadAttention_call_ok[OF b_att x] by auto
  obtain a' g1 where d1: "Dropout_call_seq (dropout_a ?b) a training g = (a', g1)"
    by (cases "Dropout_call_seq (dropout_a ?b) a training g")
  have a': "is_mat n embed_dim a'"
    using is_mat_Dropout_call_seq[OF a(2), of "dropout_a ?b" training g] d1 by simp
  have s1: "add_mat inputs a' = Inr (map2 (map2 (+)) inputs a')"
    "is_mat n embed_dim (map2 (map2 (+)) inputs a')"
    using add_mat_same[OF x a'] is_mat_map2_add[OF x a'] by auto
  obtain o1 where o1: "LayerNormalization_call (layernorm_a ?b) (layernorm_a_vars vars)
        (map2 (map2 (+)) inputs a') = Inr o1" "is_mat n embed_dim o1"
    using LayerNormalization_call_ok[OF b_lna s1(2)] by auto
  obtain f where f: "Sequential_call (ffn ?b) (ffn_vars vars) o1 = Inr f" "is_mat n embed_dim f"
    using Sequential_call_ok[OF b_ffn o1(2)] ffn_dim by auto
  obtain f' g2 where d2: "Dropout_call_seq (dropout_b ?b) f training g1 = (f', g2)"
    by (cases "Dropout_call_seq (dropout_b ?b) f training g1")
  have f': "is_mat n embed_dim f'"
    using is_mat_Dropout_call_seq[OF f(2), of "dropout_b ?b" training g1] d2 by simp
  have s2: "add_mat o1 f' = Inr (map2 (map2 (+)) o1 f')"
    "is_mat n embed_dim (map2 (map2 (+)) o1 f')"
    using add_mat_same[OF o1(2) f'] is_mat_map2_add[OF o1(2) f'] by auto
  obtain o2 where o2: "LayerNormalization_call (layernorm_b ?b) (layernorm_b_vars vars)
        (map2 (map2 (+)) o1 f') = Inr o2" "is_mat n embed_dim o2"
    using LayerNormalization_call_ok[OF b_lnb s2(2)] by auto
  show ?thesis
    unfolding TransformerBlock_call_def
    using a d1 s1 o1 f d2 s2 o2 by simp
qed

section \<open>Shapes of the symbolic tensors of the builders\<close>

lemma builders_outputs:
  "model_outputs (get_next_activity_model max_case_length vocab_size output_dim embed_dim num_heads ff_dim)
    = head_pipeline 64 output_dim
        (pooled_sequence max_case_length vocab_size (default_arg 36 embed_dim)
           (default_arg 4 num_heads) (default_arg 64 ff_dim))"
  "model_outputs (get_next_time_model max_case_length vocab_size output_dim' embed_dim num_heads ff_dim)
    = head_pipeline 128 (default_arg 1 output_dim')
        (with_time_features (pooled_sequence max_case_length vocab_size (default_arg 36 embed_dim)
           (default_arg 4 num_heads) (default_arg 64 ff_dim)))"
  "model_outputs (get_remaining_time_model max_case_length vocab_size output_dim' embed_dim num_heads ff_dim)
    = head_pipeline 128 (default_arg 1 output_dim')
        (with_time_features (pooled_sequence max_case_length vocab_size (default_arg 36 embed_dim)
           (default_arg 4 num_heads) (default_arg 64 ff_dim)))"
  by (simp_all add: get_next_activity_model_def get_next_time_model_def get_remaining_time_model_def
      head_pipeline_def pooled_sequence_def with_time_features_def Let_def)

lemma shape_pooled: "shape_of (pooled_sequence max_case_length vocab_size embed_dim num_heads ff_dim) = Inr [embed_dim]"
  by (simp add: pooled_sequence_def compute_output_shape_def TokenAndPositionEmbedding_init_def
      TransformerBlock_init_def broadcast_dim_def Let_def)

lemma shape_head: "shape_of z = Inr [d] \<Longrightarrow> shape_of (head_pipeline hidden output_dim z) = Inr [output_dim]"
  by (simp add: head_pipeline_def compute_output_shape_def)

lemma shape_time: "shape_of z = Inr [d] \<Longrightarrow> shape_of (with_time_features z) = Inr [d + 32]"
  by (simp add: with_time_features_def compute_output_shape_def)

section \<open>Runs outside training\<close>

lemma TransformerBlock_call_inference:
  "TransformerBlock_call b w x False g = replace_rng g (TransformerBlock_call b w x False g0)"
  by (simp add: TransformerBlock_call_def Dropout_call_seq_def replace_rng_def split: sum.splits)

lemma layer_call_inference:
  "layer_call l v ts False g = replace_rng g (layer_call l v ts False g0)"
proof (cases l)
  case (TransformerBlock_layer b)
  then show ?thesis
    using TransformerBlock_call_inference[of b _ _ g g0]
    by (auto simp: layer_call_def replace_rng_def split: layer_vars.splits list.splits tensor.splits sum.splits prod.splits)
qed (auto simp: layer_call_def replace_rng_def lift_pure_def Dropout_call_def Dropout_call_seq_def
      split: layer_vars.splits list.splits tensor.splits sum.splits prod.splits)

lemma run_inference_aux:
  "\<not> training \<Longrightarrow> run feed training k vt g = replace_rng g (run feed training k vt g0)"
  "\<not> training \<Longrightarrow> run_args feed training ks vts g = replace_rng g (run_args feed training ks vts g0)"
proof (induction feed training k vt g and feed training ks vts g arbitrary: g0 and g0 rule: run_run_args.induct)
  case (2 feed training l args v vs g)
  then have tr: "training = False" by simp
  show ?case
  proof (cases "run_args feed training args vs g0")
    case (Inl e)
    then show ?thesis using "2.IH"[of g0] "2.prems" by (simp add: replace_rng_def)
  next
    case (Inr p)
    obtain ts g1 where p: "p = (ts, g1)" by (cases p)
    have "run_args feed training args vs g = Inr (ts, g)"
      using "2.IH"[of g0] "2.prems" Inr p by (simp add: replace_rng_def)
    then show ?thesis using Inr p layer_call_inference[of l v ts g g1] tr
      by (simp add: replace_rng_def)
  qed
next
  case (4 feed training a as v vs g)
  show ?case
  proof (cases "run feed training a v g0")
    case (Inl e)
    then show ?thesis using "4.IH"(1)[of g0] "4.prems" by (simp add: replace_rng_def)
  next
    case (Inr p)
    obtain t g1 where p: "p = (t, g1)" by (cases p)
    have a: "run feed training a v g = Inr (t, g)"
      using "4.IH"(1)[of g0] "4.prems" Inr p by (simp add: replace_rng_def)
    have "run_args feed training as vs g = replace_rng g (run_args feed training as vs g1)"
      using "4.IH"(2)[OF a refl "4.prems", of g1] .
    then show ?thesis using a Inr p
      by (auto simp: replace_rng_def split: sum.splits prod.splits)
  qed
qed (auto simp: replace_rng_def split: option.splits)

lemma Model_call_inference:
  "Model_call m vars xs False g = replace_rng g (Model_call m vars xs False g0)"
  using run_inference_aux(1)[of False _ _ _ g g0]
  by (simp add: Model_call_def replace_rng_def)

section \<open>A run of the next-activity model\<close>

lemma GlobalAveragePooling1D_call_ok:
  assumes "is_mat n d x" "0 < n"
  shows "\<exists>v. GlobalAveragePooling1D_call x = Inr v \<and> length v = d"
  using assms by (cases x) (auto simp: GlobalAveragePooling1D_call_def is_mat_def list_all_iff)

lemma length_Dropout_call: "length (fst (Dropout_call self x training g)) = length x"
  by (simp add: Dropout_call_def dropped_inputs_def)

lemma TokenAndPositionEmbedding_call_shape:
  assumes "TokenAndPositionEmbedding_built (TokenAndPositionEmbedding_init maxlen vocab_size embed_dim) vars"
    and "length x \<le> maxlen" and "list_all (\<lambda>t. 0 \<le> t \<and> t < int vocab_size) x"
  shows "\<exists>y. TokenAndPositionEmbedding_call (TokenAndPositionEmbedding_init maxlen vocab_size embed_dim) vars x = Inr y
             \<and> is_mat (length x) embed_dim y"
proof -
  have tok: "is_mat vocab_size embed_dim (token_emb_table vars)"
    and pos: "is_mat maxlen embed_dim (pos_emb_table vars)"
    using assms(1) by (simp_all add: TokenAndPositionEmbedding_built_def TokenAndPositionEmbedding_init_def)
  have p: "is_mat (length x) embed_dim (map (\<lambda>i. pos_emb_table vars ! nat i) (map int [0..<length x]))"
    using is_mat_lookup[OF pos positions_in_range[OF assms(2)]] by simp
  have "is_mat (length x) embed_dim (map2 (map2 (+)) (map (\<lambda>t. token_emb_table vars ! nat t) x)
                                (map (\<lambda>i. pos_emb_table vars ! nat i) (map int [0..<length x])))"
    using is_mat_map2_add[OF is_mat_lookup[OF tok assms(3)] p] .
  then show ?thesis using TokenAndPositionEmbedding_call_ok[OF tok pos assms(2,3)] by simp
qed

lemma next_activity_model_call_ok:
  assumes emb: "TokenAndPositionEmbedding_built (TokenAndPositionEmbedding_init max_case_length vocab_size e) w_emb"
    and blk: "TransformerBlock_built (TransformerBlock_init e h f None) e w_block"
    and hid: "Dense_built \<lparr>units = 64, activation = Some Relu\<rparr> e w_hidden"
    and out: "Dense_built \<lparr>units = output_dim, activation = Some Linear\<rparr> 64 w_out"
    and len: "length x = max_case_length" "0 < max_case_length"
    and ids: "list_all (\<lambda>t. 0 \<le> t \<and> t < int vocab_size) x"
  shows "\<exists>v g'. Model_call (get_next_activity_model max_case_length vocab_size output_dim (Some e) (Some h) (Some f))
             (next_activity_vars w_emb w_block w_hidden w_out) [Ids x] training g = Inr (Vec v, g')
           \<and> length v = output_dim"
proof -
  let ?tpe = "TokenAndPositionEmbedding_init max_case_length vocab_size e"
  let ?tb = "TransformerBlock_init e h f None"
  obtain y0 where y0: "TokenAndPositionEmbedding_call ?tpe w_emb x = Inr y0" "is_mat max_case_length e y0"
    using TokenAndPositionEmbedding_call_shape[OF emb _ ids] len by auto
  obtain y1 g1 where y1: "TransformerBlock_call ?tb w_block y0 training g = Inr (y1, g1)"
      "is_mat max_case_length e y1"
    using TransformerBlock_call_ok[OF blk y0(2)] by blast
  obtain y2 where y2: "GlobalAveragePooling1D_call y1 = Inr y2" "length y2 = e"
    using GlobalAveragePooling1D_call_ok[OF y1(2) len(2)] by auto
  obtain y3 g3 where y3: "Dropout_call \<lparr>dropout_rate = 1 / 10\<rparr> y2 training g1 = (y3, g3)"
    by (cases "Dropout_call \<lparr>dropout_rate = 1 / 10\<rparr> y2 training g1")
  have l3: "length y3 = e"
    using length_Dropout_call[of "\<lparr>dropout_rate = 1 / 10\<rparr>" y2 training g1] y3 y2(2) by simp
  obtain y4 where y4: "Dense_call \<lparr>units = 64, activation = Some Relu\<rparr> w_hidden y3 = Inr y4" "length y4 = 64"
    using Dense_call_ok[of "\<lparr>units = 64, activation = Some Relu\<rparr>" y3 w_hidden] hid l3 by auto
  obtain y5 g5 where y5: "Dropout_call \<lparr>dropout_rate = 1 / 10\<rparr> y4 training g3 = (y5, g5)"
    by (cases "Dropout_call \<lparr>dropout_rate = 1 / 10\<rparr> y4 training g3")
  have l5: "length y5 = 64"
    using length_Dropout_call[of "\<lparr>dropout_rate = 1 / 10\<rparr>" y4 training g3] y5 y4(2) by simp
  obtain y6 where y6: "Dense_call \<lparr>units = output_dim, activation = Some Linear\<rparr> w_out y5 = Inr y6"
      "length y6 = output_dim"
    using Dense_call_ok[of "\<lparr>units = output_dim, activation = Some Linear\<rparr>" y5 w_out] out l5 by auto
  have "Model_call (get_next_activity_model max_case_length vocab_size output_dim (Some e) (Some h) (Some f))
             (next_activity_vars w_emb w_block w_hidden w_out) [Ids x] training g = Inr (Vec y6, g5)"
    using len(1) y0(1) y1(1) y2(1) y3 y4(1) y5 y6(1)
    by (simp add: Model_call_def get_next_activity_model_def next_activity_vars_def Let_def
        default_arg_def fits_def layer_call_def lift_pure_def)
  then show ?thesis using y6(2) by blast
qed

lemma is_mat_constant: "is_mat r c (constant_mat r c a)"
  by (simp add: is_mat_def constant_mat_def list_all_iff)

lemma Dense_built_constant: "Dense_built \<lparr>units = m, activation = act\<rparr> n (Dense_constant n m a)"
  by (simp add: Dense_built_def Dense_constant_def is_mat_constant is_vec_def)

lemma TokenAndPositionEmbedding_built_constant:
  "TokenAndPositionEmbedding_built (TokenAndPositionEmbedding_init maxlen vocab_size embed_dim)
     (TokenAndPositionEmbedding_constant maxlen vocab_size embed_dim a)"
  by (simp add: TokenAndPositionEmbedding_built_def TokenAndPositionEmbedding_init_def
      TokenAndPositionEmbedding_constant_def is_mat_constant)

lemma TransformerBlock_built_constant:
  "TransformerBlock_built (TransformerBlock_init embed_dim num_heads ff_dim rate) embed_dim
     (TransformerBlock_constant embed_dim num_heads ff_dim a)"
  by (simp add: TransformerBlock_built_def TransformerBlock_init_def TransformerBlock_constant_def
      MultiHeadAttention_built_def head_built_def head_constant_def LayerNormalization_built_def
      LayerNormalization_constant_def Dense_built_constant is_mat_constant is_vec_def
      broadcast_dim_def Let_def list_all_iff)

section \<open>The claims of the specification\<close>

text \<open>
  Claim C1. For every input sequence, \<open>TransformerBlock.call\<close> computes the six steps
  of the specification in their order: multi-head self-attention of the sequence with
  itself, with \<open>num_heads\<close> heads of key dimension \<open>embed_dim\<close>; dropout at the rate of
  the block; the residual sum with the input and layer normalization with epsilon 1e-6;
  the feed-forward sublayer, dense to \<open>ff_dim\<close> with rectified-linear activation and
  dense back to \<open>embed_dim\<close>; dropout at the rate of the block; the residual sum with the
  normalized value of step three and the second layer normalization with epsilon 1e-6.
  The rate is the argument of the constructor, 0.1 when it is left out.
\<close>

theorem TransformerBlock_call_six_steps:
  "TransformerBlock_call (TransformerBlock_init embed_dim num_heads ff_dim rate)
      \<lparr>att_vars = w_att, ffn_vars = [w1, w2], layernorm_a_vars = w_a, layernorm_b_vars = w_b\<rparr>
      inputs training g
   = six_steps embed_dim num_heads ff_dim (default_arg (1 / 10) rate) w_att w1 w2 w_a w_b
       inputs training g"
  by (simp add: TransformerBlock_call_def TransformerBlock_init_def six_steps_def Let_def
      step1_self_attention_def step2_dropout_def step3_residual_norm_def step4_feed_forward_def
      step5_dropout_def step6_residual_norm_def and_then_def
      split: sum.splits prod.splits)

text \<open>
  Claim C2, as amended. For every sequence of token identifiers that all lie in
  \<open>0..vocab_size-1\<close>, of a length \<open>L\<close> of at most \<open>maxlen\<close>,
  \<open>TokenAndPositionEmbedding.call\<close> returns \<open>L\<close> vectors of size \<open>embed_dim\<close>, and the
  vector at position \<open>i\<close> is the elementwise sum of the row of the token table of the
  \<open>i\<close>-th token and row \<open>i\<close> of the position table.
\<close>

theorem TokenAndPositionEmbedding_call_sum:
  assumes "TokenAndPositionEmbedding_built (TokenAndPositionEmbedding_init maxlen vocab_size embed_dim) vars"
    and "length x \<le> maxlen"
    and "list_all (\<lambda>t. 0 \<le> t \<and> t < int vocab_size) x"
  shows "\<exists>y. TokenAndPositionEmbedding_call (TokenAndPositionEmbedding_init maxlen vocab_size embed_dim) vars x = Inr y
             \<and> is_mat (length x) embed_dim y
             \<and> (\<forall>i<length x. y ! i = map2 (+) (token_emb_table vars ! nat (x ! i)) (pos_emb_table vars ! i))"
proof -
  have tok: "is_mat vocab_size embed_dim (token_emb_table vars)"
    and pos: "is_mat maxlen embed_dim (pos_emb_table vars)"
    using assms(1) by (simp_all add: TokenAndPositionEmbedding_built_def TokenAndPositionEmbedding_init_def)
  let ?y = "map2 (map2 (+)) (map (\<lambda>t. token_emb_table vars ! nat t) x)
                            (map (\<lambda>i. pos_emb_table vars ! nat i) (map int [0..<length x]))"
  have call: "TokenAndPositionEmbedding_call (TokenAndPositionEmbedding_init maxlen vocab_size embed_dim) vars x = Inr ?y"
    using TokenAndPositionEmbedding_call_ok[OF tok pos assms(2,3)] .
  have shape: "is_mat (length x) embed_dim ?y"
    using TokenAndPositionEmbedding_call_shape[OF assms] call by simp
  have "\<forall>i<length x. ?y ! i = map2 (+) (token_emb_table vars ! nat (x ! i)) (pos_emb_table vars ! i)"
    by simp
  with call shape show ?thesis by blast
qed

theorem TokenAndPositionEmbedding_call_sum_witness:
  "TokenAndPositionEmbedding_built (TokenAndPositionEmbedding_init 2 3 2)
     \<lparr>token_emb_table = [[1, 2], [3, 4], [5, 6]], pos_emb_table = [[10, 20], [30, 40]]\<rparr>
   \<and> length [2, 0 :: int] \<le> 2
   \<and> list_all (\<lambda>t. 0 \<le> t \<and> t < int 3) [2, 0]
   \<and> (\<exists>y. TokenAndPositionEmbedding_call (TokenAndPositionEmbedding_init 2 3 2)
             \<lparr>token_emb_table = [[1, 2], [3, 4], [5, 6]], pos_emb_table = [[10, 20], [30, 40]]\<rparr> [2, 0] = Inr y
          \<and> is_mat (length [2, 0 :: int]) 2 y
          \<and> (\<forall>i<length [2, 0 :: int]. y ! i =
                map2 (+) (token_emb_table \<lparr>token_emb_table = [[1, 2], [3, 4], [5, 6]], pos_emb_table = [[10, 20], [30, 40]]\<rparr> ! nat ([2, 0] ! i))
                         (pos_emb_table \<lparr>token_emb_table = [[1, 2], [3, 4], [5, 6]], pos_emb_table = [[10, 20], [30, 40]]\<rparr> ! i)))"
proof -
  let ?vars = "\<lparr>token_emb_table = [[1, 2], [3, 4], [5, 6]], pos_emb_table = [[10, 20], [30, 40 :: real]]\<rparr>"
  have h1: "TokenAndPositionEmbedding_built (TokenAndPositionEmbedding_init 2 3 2) ?vars"
    by (simp add: TokenAndPositionEmbedding_built_def TokenAndPositionEmbedding_init_def is_mat_def)
  have h2: "length [2, 0 :: int] \<le> 2" by simp
  have h3: "list_all (\<lambda>t. 0 \<le> t \<and> t < int 3) [2, 0]" by simp
  from TokenAndPositionEmbedding_call_sum[OF h1 h2 h3] h1 h2 h3 show ?thesis by blast
qed

text \<open>
  The claim as it was stated, for every integer sequence of a length of at most
  \<open>maxlen\<close>, does not hold: a token identifier outside the vocabulary has no row in the
  token table and the lookup raises.
\<close>

theorem TokenAndPositionEmbedding_call_invalid_token:
  "TokenAndPositionEmbedding_built (TokenAndPositionEmbedding_init 1 1 1)
     \<lparr>token_emb_table = [[0]], pos_emb_table = [[0]]\<rparr>
   \<and> length [1 :: int] \<le> 1
   \<and> TokenAndPositionEmbedding_call (TokenAndPositionEmbedding_init 1 1 1)
        \<lparr>token_emb_table = [[0]], pos_emb_table = [[0]]\<rparr> [1] = Inl InvalidArgument"
  by (simp add: TokenAndPositionEmbedding_call_def TokenAndPositionEmbedding_init_def
      TokenAndPositionEmbedding_built_def tf_range_def Embedding_call_def is_mat_def)

text \<open>
  Claim C3. The three builders wire the same pipeline: token and position embedding
  of the sequence, one transformer block, global average pooling across the sequence
  axis, dropout(0.1), a dense hidden layer with rectified-linear activation,
  dropout(0.1) and a dense linear layer of \<open>output_dim\<close> units. The hidden layer of
  \<open>get_next_activity_model\<close> has 64 units; in \<open>get_next_time_model\<close> and
  \<open>get_remaining_time_model\<close> the input of three numeric features passes through a dense
  layer of 32 units with rectified-linear activation of its own and is concatenated
  with the pooled sequence, and the hidden layer has 128 units.
\<close>

theorem builders_head_pipeline:
  "model_outputs (get_next_activity_model max_case_length vocab_size output_dim embed_dim num_heads ff_dim)
    = head_pipeline 64 output_dim
        (pooled_sequence max_case_length vocab_size (default_arg 36 embed_dim)
           (default_arg 4 num_heads) (default_arg 64 ff_dim)) \<and>
   model_outputs (get_next_time_model max_case_length vocab_size output_dim' embed_dim num_heads ff_dim)
    = head_pipeline 128 (default_arg 1 output_dim')
        (with_time_features (pooled_sequence max_case_length vocab_size (default_arg 36 embed_dim)
           (default_arg 4 num_heads) (default_arg 64 ff_dim))) \<and>
   model_outputs (get_remaining_time_model max_case_length vocab_size output_dim' embed_dim num_heads ff_dim)
    = head_pipeline 128 (default_arg 1 output_dim')
        (with_time_features (pooled_sequence max_case_length vocab_size (default_arg 36 embed_dim)
           (default_arg 4 num_heads) (default_arg 64 ff_dim)))"
  by (simp add: builders_outputs)

text \<open>
  Claim C4, as amended. For every argument tuple the output of each of the three
  models has the width of the argument \<open>output_dim\<close>; for \<open>get_next_time_model\<close> and
  \<open>get_remaining_time_model\<close> this argument may be left out and the width is then 1.
\<close>

theorem builders_output_width:
  "shape_of (model_outputs (get_next_activity_model max_case_length vocab_size output_dim embed_dim num_heads ff_dim))
     = Inr [output_dim] \<and>
   shape_of (model_outputs (get_next_time_model max_case_length vocab_size output_dim' embed_dim num_heads ff_dim))
     = Inr [default_arg 1 output_dim'] \<and>
   shape_of (model_outputs (get_remaining_time_model max_case_length vocab_size output_dim' embed_dim num_heads ff_dim))
     = Inr [default_arg 1 output_dim']"
  by (simp add: builders_outputs shape_head[OF shape_pooled] shape_head[OF shape_time[OF shape_pooled]])

text \<open>
  The claim as it was stated, that the two time models have output width 1 whatever
  the arguments, does not hold: \<open>output_dim\<close> is a parameter of these builders too.
\<close>

theorem next_time_output_width_not_one:
  "shape_of (model_outputs (get_next_time_model 10 50 (Some 2) None None None)) = Inr [2]
   \<and> shape_of (model_outputs (get_next_time_model 10 50 (Some 2) None None None)) \<noteq> Inr [1]"
  by (simp add: builders_outputs shape_head[OF shape_time[OF shape_pooled]] default_arg_def)

text \<open>
  Claim C5. Each builder returns a model whose sequence input has the shape
  \<open>max_case_length\<close>; the two time models have a second input of the fixed width 3 and
  the next-activity model has none; the names of the models are the fixed strings
  \<open>next_activity_transformer\<close>, \<open>next_time_transformer\<close> and
  \<open>remaining_time_transformer\<close>. Leaving out \<open>embed_dim\<close>, \<open>num_heads\<close> and \<open>ff_dim\<close>
  is passing 36, 4 and 64.
\<close>

theorem builders_inputs_and_names:
  "model_inputs (get_next_activity_model max_case_length vocab_size output_dim embed_dim num_heads ff_dim)
     = [Input 0 [max_case_length]] \<and>
   model_name (get_next_activity_model max_case_length vocab_size output_dim embed_dim num_heads ff_dim)
     = ''next_activity_transformer'' \<and>
   model_inputs (get_next_time_model max_case_length vocab_size output_dim' embed_dim num_heads ff_dim)
     = [Input 0 [max_case_length], Input 1 [3]] \<and>
   model_name (get_next_time_model max_case_length vocab_size output_dim' embed_dim num_heads ff_dim)
     = ''next_time_transformer'' \<and>
   model_inputs (get_remaining_time_model max_case_length vocab_size output_dim' embed_dim num_heads ff_dim)
     = [Input 0 [max_case_length], Input 1 [3]] \<and>
   model_name (get_remaining_time_model max_case_length vocab_size output_dim' embed_dim num_heads ff_dim)
     = ''remaining_time_transformer'' \<and>
   get_next_activity_model max_case_length vocab_size output_dim None None None
     = get_next_activity_model max_case_length vocab_size output_dim (Some 36) (Some 4) (Some 64) \<and>
   get_next_time_model max_case_length vocab_size output_dim' None None None
     = get_next_time_model max_case_length vocab_size output_dim' (Some 36) (Some 4) (Some 64) \<and>
   get_remaining_time_model max_case_length vocab_size output_dim' None None None
     = get_remaining_time_model max_case_length vocab_size output_dim' (Some 36) (Some 4) (Some 64)"
  by (simp add: get_next_activity_model_def get_next_time_model_def get_remaining_time_model_def
      Let_def default_arg_def)

text \<open>
  Claim C6. \<open>TransformerBlock.call\<close> preserves the shape of its input: on a sequence
  of \<open>L\<close> vectors of size \<open>embed_dim\<close>, whatever \<open>L\<close>, and with variables as the
  framework builds them for this feature size, it returns without an error a sequence
  of \<open>L\<close> vectors of size \<open>embed_dim\<close>, in training and outside.
\<close>

theorem TransformerBlock_call_preserves_shape:
  assumes "TransformerBlock_built (TransformerBlock_init embed_dim num_heads ff_dim rate) embed_dim vars"
    and "is_mat n embed_dim inputs"
  shows "\<exists>out g'. TransformerBlock_call (TransformerBlock_init embed_dim num_heads ff_dim rate) vars
                     inputs training g = Inr (out, g')
                 \<and> is_mat n embed_dim out"
  using TransformerBlock_call_ok[OF assms] .

theorem TransformerBlock_call_preserves_shape_witness:
  "TransformerBlock_built (TransformerBlock_init 2 1 3 None) 2 (TransformerBlock_constant 2 1 3 1)
   \<and> is_mat 2 2 [[1, 2], [3, 4]]
   \<and> (\<exists>out g'. TransformerBlock_call (TransformerBlock_init 2 1 3 None) (TransformerBlock_constant 2 1 3 1)
                  [[1, 2], [3, 4]] True (\<lambda>k. even k) = Inr (out, g')
              \<and> is_mat 2 2 out)"
proof -
  have h1: "TransformerBlock_built (TransformerBlock_init 2 1 3 None) 2 (TransformerBlock_constant 2 1 3 1)"
    by (rule TransformerBlock_built_constant)
  have h2: "is_mat 2 2 [[1, 2], [3, 4]]" by (simp add: is_mat_def)
  from TransformerBlock_call_preserves_shape[OF h1 h2, of True "\<lambda>k. even k"] h1 h2
  show ?thesis by blast
qed

text \<open>
  Claim C7. Outside training every dropout returns its input as it is and leaves the
  random generator alone, so that two runs of a built model on the same input and with
  the same variables give the same output, whatever the states of the generator.
\<close>

theorem inference_is_deterministic:
  "Dropout_call d v False g = (v, g) \<and>
   Dropout_call_seq d s False g = (s, g) \<and>
   map_sum id fst (Model_call (get_next_activity_model max_case_length vocab_size output_dim embed_dim num_heads ff_dim)
                     vars xs False g)
     = map_sum id fst (Model_call (get_next_activity_model max_case_length vocab_size output_dim embed_dim num_heads ff_dim)
                         vars xs False g') \<and>
   map_sum id fst (Model_call (get_next_time_model max_case_length vocab_size output_dim' embed_dim num_heads ff_dim)
                     vars xs False g)
     = map_sum id fst (Model_call (get_next_time_model max_case_length vocab_size output_dim' embed_dim num_heads ff_dim)
                         vars xs False g') \<and>
   map_sum id fst (Model_call (get_remaining_time_model max_case_length vocab_size output_dim' embed_dim num_heads ff_dim)
                     vars xs False g)
     = map_sum id fst (Model_call (get_remaining_time_model max_case_length vocab_size output_dim' embed_dim num_heads ff_dim)
                         vars xs False g')"
proof -
  have det: "map_sum id fst (Model_call m vars xs False g) = map_sum id fst (Model_call m vars xs False g')"
    for m
    using Model_call_inference[of m vars xs g g']
    by (simp add: replace_rng_def split: sum.splits prod.splits)
  show ?thesis
    by (simp add: Dropout_call_def Dropout_call_seq_def det)
qed

text \<open>
  Claim C8. The model built by \<open>get_next_activity_model\<close> with \<open>max_case_length = 10\<close>,
  \<open>vocab_size = 50\<close>, \<open>output_dim = 5\<close>, \<open>embed_dim = 36\<close>, \<open>num_heads = 4\<close> and
  \<open>ff_dim = 64\<close> has an output of the symbolic shape 5, and run on a sequence of ten
  token identifiers of the vocabulary it returns a vector of length 5.
\<close>

theorem next_activity_example_output:
  assumes "TokenAndPositionEmbedding_built (TokenAndPositionEmbedding_init 10 50 36) w_emb"
    and "TransformerBlock_built (TransformerBlock_init 36 4 64 None) 36 w_block"
    and "Dense_built \<lparr>units = 64, activation = Some Relu\<rparr> 36 w_hidden"
    and "Dense_built \<lparr>units = 5, activation = Some Linear\<rparr> 64 w_out"
    and "length x = 10"
    and "list_all (\<lambda>t. 0 \<le> t \<and> t < 50) x"
  shows "shape_of (model_outputs (get_next_activity_model 10 50 5 (Some 36) (Some 4) (Some 64))) = Inr [5]
       \<and> (\<exists>v g'. Model_call (get_next_activity_model 10 50 5 (Some 36) (Some 4) (Some 64))
                    (next_activity_vars w_emb w_block w_hidden w_out) [Ids x] training g = Inr (Vec v, g')
                \<and> length v = 5)"
proof -
  have ids: "list_all (\<lambda>t. 0 \<le> t \<and> t < int 50) x" using assms(6) by simp
  have "\<exists>v g'. Model_call (get_next_activity_model 10 50 5 (Some 36) (Some 4) (Some 64))
                    (next_activity_vars w_emb w_block w_hidden w_out) [Ids x] training g = Inr (Vec v, g')
                \<and> length v = 5"
    using next_activity_model_call_ok[OF assms(1-5) _ ids] by simp
  moreover have "shape_of (model_outputs (get_next_activity_model 10 50 5 (Some 36) (Some 4) (Some 64))) = Inr [5]"
    by (simp add: builders_outputs shape_head[OF shape_pooled])
  ultimately show ?thesis by blast
qed

theorem next_activity_example_output_witness:
  "TokenAndPositionEmbedding_built (TokenAndPositionEmbedding_init 10 50 36)
     (TokenAndPositionEmbedding_constant 10 50 36 0)
   \<and> TransformerBlock_built (TransformerBlock_init 36 4 64 None) 36 (TransformerBlock_constant 36 4 64 0)
   \<and> Dense_built \<lparr>units = 64, activation = Some Relu\<rparr> 36 (Dense_constant 36 64 0)
   \<and> Dense_built \<lparr>units = 5, activation = Some Linear\<rparr> 64 (Dense_constant 64 5 0)
   \<and> length [0, 1, 2, 3, 4, 5, 6, 7, 8, 49 :: int] = 10
   \<and> list_all (\<lambda>t. 0 \<le> t \<and> t < 50) [0, 1, 2, 3, 4, 5, 6, 7, 8, 49 :: int]
   \<and> shape_of (model_outputs (get_next_activity_model 10 50 5 (Some 36) (Some 4) (Some 64))) = Inr [5]
   \<and> (\<exists>v g'. Model_call (get_next_activity_model 10 50 5 (Some 36) (Some 4) (Some 64))
                (next_activity_vars (TokenAndPositionEmbedding_constant 10 50 36 0)
                   (TransformerBlock_constant 36 4 64 0) (Dense_constant 36 64 0) (Dense_constant 64 5 0))
                [Ids [0, 1, 2, 3, 4, 5, 6, 7, 8, 49]] False (\<lambda>k. True) = Inr (Vec v, g')
            \<and> length v = 5)"
proof -
  have h1: "TokenAndPositionEmbedding_built (TokenAndPositionEmbedding_init 10 50 36)
     (TokenAndPositionEmbedding_constant 10 50 36 0)"
    by (rule TokenAndPositionEmbedding_built_constant)
  have h2: "TransformerBlock_built (TransformerBlock_init 36 4 64 None) 36 (TransformerBlock_constant 36 4 64 0)"
    by (rule TransformerBlock_built_constant)
  have h3: "Dense_built \<lparr>units = 64, activation = Some Relu\<rparr> 36 (Dense_constant 36 64 0)"
    by (rule Dense_built_constant)
  have h4: "Dense_built \<lparr>units = 5, activation = Some Linear\<rparr> 64 (Dense_constant 64 5 0)"
    by (rule Dense_built_constant)
  have h5: "length [0, 1, 2, 3, 4, 5, 6, 7, 8, 49 :: int] = 10" by simp
  have h6: "list_all (\<lambda>t. 0 \<le> t \<and> t < 50) [0, 1, 2, 3, 4, 5, 6, 7, 8, 49 :: int]" by simp
  from next_activity_example_output[OF h1 h2 h3 h4 h5 h6, of False "\<lambda>k. True"] h1 h2 h3 h4 h5 h6
  show ?thesis by blast
qed

text \<open>
  Claim C9. For the same arguments \<open>get_next_time_model\<close> and
  \<open>get_remaining_time_model\<close> build the same graph and differ in the name of the model
  only; run with the same variables on the same inputs the two models give the same
  result.
\<close>

theorem time_models_differ_in_name_only:
  "get_next_time_model max_case_length vocab_size output_dim embed_dim num_heads ff_dim
     = (get_remaining_time_model max_case_length vocab_size output_dim embed_dim num_heads ff_dim)
         \<lparr>model_name := ''next_time_transformer''\<rparr> \<and>
   model_name (get_next_time_model max_case_length vocab_size output_dim embed_dim num_heads ff_dim)
     \<noteq> model_name (get_remaining_time_model max_case_length vocab_size output_dim embed_dim num_heads ff_dim) \<and>
   Model_call (get_next_time_model max_case_length vocab_size output_dim embed_dim num_heads ff_dim)
       vars xs training g
     = Model_call (get_remaining_time_model max_case_length vocab_size output_dim embed_dim num_heads ff_dim)
         vars xs training g"
  by (simp add: get_next_time_model_def get_remaining_time_model_def Let_def Model_call_def)

text \<open>
  Claim C10. \<open>TokenAndPositionEmbedding.call\<close> looks up the positions
  \<open>0..L-1\<close> of the length \<open>L\<close> of the input it is given, not of the \<open>maxlen\<close> of the
  constructor. Hence both lookups are in range when \<open>L\<close> is at most \<open>maxlen\<close> and all
  token identifiers lie in \<open>0..vocab_size-1\<close>, and the lookup of the positions leaves its
  table and raises when \<open>L\<close> exceeds \<open>maxlen\<close>.
\<close>

theorem position_lookup_range:
  assumes "TokenAndPositionEmbedding_built (TokenAndPositionEmbedding_init maxlen vocab_size embed_dim) vars"
  shows "TokenAndPositionEmbedding_call (TokenAndPositionEmbedding_init maxlen vocab_size embed_dim) vars x
           = and_then (Embedding_call \<lparr>emb_input_dim = maxlen, emb_output_dim = embed_dim\<rparr>
                         (pos_emb_table vars) (map int [0..<length x]))
               (\<lambda>positions. and_then (Embedding_call \<lparr>emb_input_dim = vocab_size, emb_output_dim = embed_dim\<rparr>
                                         (token_emb_table vars) x)
                  (\<lambda>tokens. add_mat tokens positions))
       \<and> (length x \<le> maxlen \<and> list_all (\<lambda>t. 0 \<le> t \<and> t < int vocab_size) x \<longrightarrow>
            (\<exists>y. TokenAndPositionEmbedding_call (TokenAndPositionEmbedding_init maxlen vocab_size embed_dim) vars x = Inr y
                 \<and> length y = length x))
       \<and> (maxlen < length x \<longrightarrow>
            TokenAndPositionEmbedding_call (TokenAndPositionEmbedding_init maxlen vocab_size embed_dim) vars x
              = Inl InvalidArgument)"
proof (intro conjI impI)
  show "TokenAndPositionEmbedding_call (TokenAndPositionEmbedding_init maxlen vocab_size embed_dim) vars x
           = and_then (Embedding_call \<lparr>emb_input_dim = maxlen, emb_output_dim = embed_dim\<rparr>
                         (pos_emb_table vars) (map int [0..<length x]))
               (\<lambda>positions. and_then (Embedding_call \<lparr>emb_input_dim = vocab_size, emb_output_dim = embed_dim\<rparr>
                                         (token_emb_table vars) x)
                  (\<lambda>tokens. add_mat tokens positions))"
    by (simp add: TokenAndPositionEmbedding_call_def TokenAndPositionEmbedding_init_def
        tf_range_upto and_then_def Let_def split: sum.splits)
next
  assume "length x \<le> maxlen \<and> list_all (\<lambda>t. 0 \<le> t \<and> t < int vocab_size) x"
  then show "\<exists>y. TokenAndPositionEmbedding_call (TokenAndPositionEmbedding_init maxlen vocab_size embed_dim) vars x = Inr y
                 \<and> length y = length x"
    using TokenAndPositionEmbedding_call_shape[OF assms, of x] by (auto simp: is_mat_def)
next
  have pos: "is_mat maxlen embed_dim (pos_emb_table vars)"
    using assms by (simp add: TokenAndPositionEmbedding_built_def TokenAndPositionEmbedding_init_def)
  assume "maxlen < length x"
  then show "TokenAndPositionEmbedding_call (TokenAndPositionEmbedding_init maxlen vocab_size embed_dim) vars x
              = Inl InvalidArgument"
    using TokenAndPositionEmbedding_call_too_long[OF pos] by simp
qed

theorem position_lookup_range_witness:
  "TokenAndPositionEmbedding_built (TokenAndPositionEmbedding_init 2 3 1)
     (TokenAndPositionEmbedding_constant 2 3 1 0)
   \<and> length [2, 0 :: int] \<le> 2 \<and> list_all (\<lambda>t. 0 \<le> t \<and> t < int 3) [2, 0]
   \<and> (\<exists>y. TokenAndPositionEmbedding_call (TokenAndPositionEmbedding_init 2 3 1)
             (TokenAndPositionEmbedding_constant 2 3 1 0) [2, 0] = Inr y \<and> length y = length [2, 0 :: int])
   \<and> 2 < length [0, 0, 0 :: int]
   \<and> TokenAndPositionEmbedding_call (TokenAndPositionEmbedding_init 2 3 1)
        (TokenAndPositionEmbedding_constant 2 3 1 0) [0, 0, 0] = Inl InvalidArgument"
proof -
  have h: "TokenAndPositionEmbedding_built (TokenAndPositionEmbedding_init 2 3 1)
     (TokenAndPositionEmbedding_constant 2 3 1 0)"
    by (rule TokenAndPositionEmbedding_built_constant)
  have a: "length [2, 0 :: int] \<le> 2 \<and> list_all (\<lambda>t. 0 \<le> t \<and> t < int 3) [2, 0]" by simp
  have b: "2 < length [0, 0, 0 :: int]" by simp
  from position_lookup_range[OF h, of "[2, 0]"] position_lookup_range[OF h, of "[0, 0, 0]"] h a b
  show ?thesis by blast
qed

end
